theory Spec2Isabelle
  imports Complex_Main "HOL-Library.Word"
begin

section \<open>Go library functions used by the sentence parsers\<close>

text \<open>
  Go strings are byte sequences: \<open>string\<close> (a list of 8-bit characters) models them
  byte for byte.  A \<open>float64\<close> is modelled by a real number: every finite value
  is exact and arithmetic does not round.  Infinities, NaN and the rounding of binary64
  are outside the model.
\<close>

subsection \<open>Decimal digits and \<open>fmt\<close> verbs\<close>

definition digit_char :: "nat \<Rightarrow> char" where
  "digit_char n = ''0123456789'' ! (n mod 10)"

text \<open>\<open>strconv.Itoa\<close> on a non-negative number: the decimal digits, most significant first.\<close>

fun dec :: "nat \<Rightarrow> string" where
  "dec n = (if n < 10 then [digit_char n] else dec (n div 10) @ [digit_char (n mod 10)])"

declare dec.simps [simp del]

text \<open>The verb \<open>%0wd\<close>: sign first, then zeros up to width \<open>w\<close>, then the digits.
  Width 0 is the plain \<open>%d\<close> (and \<open>strconv.Itoa\<close>).\<close>

definition fmt_d :: "nat \<Rightarrow> int \<Rightarrow> string" where
  "fmt_d w i =
     (let sgn = (if i < 0 then ''-'' else []); body = dec (nat \<bar>i\<bar>)
      in sgn @ replicate (w - length sgn - length body) (CHR ''0'') @ body)"

text \<open>Rounding to the nearest integer, ties to even, as \<open>fmt\<close> rounds the last printed digit.\<close>

definition round_half_even :: "real \<Rightarrow> int" where
  "round_half_even x =
     (let f = \<lfloor>x\<rfloor>; r = x - of_int f
      in if r < 1 / 2 then f else if 1 / 2 < r then f + 1 else if even f then f else f + 1)"

text \<open>The verb \<open>%0w.pf\<close>: \<open>p\<close> digits after the point, zero padded to width \<open>w\<close>
  (width 0 is \<open>%.pf\<close>).\<close>

definition fmt_f :: "nat \<Rightarrow> nat \<Rightarrow> real \<Rightarrow> string" where
  "fmt_f w p x =
     (let n = nat (round_half_even (\<bar>x\<bar> * 10 ^ p));
          frac = dec (n mod 10 ^ p);
          body = dec (n div 10 ^ p) @
                 (if p = 0 then [] else ''.'' @ replicate (p - length frac) (CHR ''0'') @ frac);
          sgn = (if x < 0 then ''-'' else [])
      in sgn @ replicate (w - length sgn - length body) (CHR ''0'') @ body)"

subsection \<open>Package \<open>strings\<close>\<close>

text \<open>\<open>strings.Trim(s, cutset)\<close> for a cutset of ASCII characters.\<close>

definition Trim :: "string \<Rightarrow> string \<Rightarrow> string" where
  "Trim s cutset =
     rev (dropWhile (\<lambda>c. c \<in> set cutset) (rev (dropWhile (\<lambda>c. c \<in> set cutset) s)))"

text \<open>\<open>strings.Join\<close>.\<close>

fun Join :: "string list \<Rightarrow> string \<Rightarrow> string" where
  "Join [] sep = []"
| "Join [x] sep = x"
| "Join (x # y # ys) sep = x @ sep @ Join (y # ys) sep"

text \<open>The white space of \<open>unicode.IsSpace\<close>, each code point in its UTF-8 encoding:
  tab, line feed, vertical tab, form feed, carriage return, space, U+0085, U+00A0, U+1680,
  U+2000 to U+200A, U+2028, U+2029, U+202F, U+205F and U+3000.\<close>

definition unicode_spaces :: "string list" where
  "unicode_spaces =
     [[CHR 0x09], [CHR 0x0A], [CHR 0x0B], [CHR 0x0C], [CHR 0x0D], [CHR 0x20],
      [CHR 0xC2, CHR 0x85], [CHR 0xC2, CHR 0xA0], [CHR 0xE1, CHR 0x9A, CHR 0x80],
      [CHR 0xE2, CHR 0x80, CHR 0x80], [CHR 0xE2, CHR 0x80, CHR 0x81],
      [CHR 0xE2, CHR 0x80, CHR 0x82], [CHR 0xE2, CHR 0x80, CHR 0x83],
      [CHR 0xE2, CHR 0x80, CHR 0x84], [CHR 0xE2, CHR 0x80, CHR 0x85],
      [CHR 0xE2, CHR 0x80, CHR 0x86], [CHR 0xE2, CHR 0x80, CHR 0x87],
      [CHR 0xE2, CHR 0x80, CHR 0x88], [CHR 0xE2, CHR 0x80, CHR 0x89],
      [CHR 0xE2, CHR 0x80, CHR 0x8A], [CHR 0xE2, CHR 0x80, CHR 0xA8],
      [CHR 0xE2, CHR 0x80, CHR 0xA9], [CHR 0xE2, CHR 0x80, CHR 0xAF],
      [CHR 0xE2, CHR 0x81, CHR 0x9F], [CHR 0xE3, CHR 0x80, CHR 0x80]]"

text \<open>The rest of \<open>s\<close> after the first word of \<open>ws\<close> that \<open>s\<close> starts with.\<close>

fun cut_prefix :: "string list \<Rightarrow> string \<Rightarrow> string option" where
  "cut_prefix [] s = None"
| "cut_prefix (w # ws) s =
     (if w \<noteq> [] \<and> take (length w) s = w then Some (drop (length w) s) else cut_prefix ws s)"

lemma cut_prefix_shorter: "cut_prefix ws s = Some t \<Longrightarrow> length t < length s"
proof (induction ws)
  case Nil
  then show ?case by simp
next
  case (Cons w ws)
  show ?case
  proof (cases "w \<noteq> [] \<and> take (length w) s = w")
    case True
    then have "t = drop (length w) s" using Cons.prems by simp
    moreover have "s \<noteq> []" using True by auto
    ultimately show ?thesis using True by (cases w) auto
  next
    case False
    then show ?thesis using Cons by auto
  qed
qed

function trim_left :: "string list \<Rightarrow> string \<Rightarrow> string" where
  "trim_left ws s = (case cut_prefix ws s of None \<Rightarrow> s | Some t \<Rightarrow> trim_left ws t)"
  by pat_completeness auto
termination
  by (relation "measure (\<lambda>(ws, s). length s)") (auto dest: cut_prefix_shorter)

declare trim_left.simps [simp del]

text \<open>\<open>strings.TrimSpace\<close>: leading white space is cut, then trailing white space
  (matched backwards, encoding by encoding).\<close>

definition TrimSpace :: "string \<Rightarrow> string" where
  "TrimSpace s = rev (trim_left (map rev unicode_spaces) (rev (trim_left unicode_spaces s)))"

section \<open>Messages and errors\<close>

text \<open>\<open>Message\<close>: the frame a sentence is built from.\<close>

record Message =
  Type :: string
  Fields :: "string list"
  Checksum :: string

datatype numerr = ErrSyntax | ErrRange | ErrBase | ErrBitSize | NonFinite

text \<open>
  One constructor for each error the code builds: \<open>NumError\<close> is
  \<open>strconv.NumError\<close> (function, input, cause), the others are the texts given to
  \<open>fmt.Errorf\<close> with their arguments.  \<open>PanicIndex i n\<close> is the run-time panic of
  indexing a slice of length \<open>n\<close> at \<open>i\<close>.
\<close>

datatype error =
    NumError string string numerr
  | UnknowValue
  | UnknowValueInt int
  | UnknowValueStr string
  | EmptyLatLong
  | WrongDMFormat string
  | InvalidRange real
  | WrongDirection string
  | Incomplete string nat nat
  | InvalidFixedField nat string string
  | UnableToParse string string
  | WrongMagneticVariationDirection string
  | TimeParseError
  | PanicIndex nat nat
  | MessageError Message error

text \<open>
  Modelled from the spec: \<open>Message.Error\<close> is not among the sources.  The spec (error
  handling design) lets every error carry the offending message; the model keeps the
  message and the error it wraps.
\<close>

definition Message_Error :: "Message \<Rightarrow> error \<Rightarrow> error" where
  "Message_Error m e = MessageError m e"

subsection \<open>Package \<open>strconv\<close>\<close>

fun index_in :: "'a list \<Rightarrow> 'a \<Rightarrow> nat option" where
  "index_in [] a = None"
| "index_in (x # xs) a = (if x = a then Some 0 else map_option Suc (index_in xs a))"

text \<open>The value of a digit or letter: 0 to 9, then 10 to 35 for a to z in either case.\<close>

definition digit_val :: "char \<Rightarrow> nat option" where
  "digit_val c =
     (case index_in ''0123456789abcdefghijklmnopqrstuvwxyz'' c of
        Some n \<Rightarrow> Some n
      | None \<Rightarrow> map_option (\<lambda>n. n + 10) (index_in ''ABCDEFGHIJKLMNOPQRSTUVWXYZ'' c))"

definition is_digit :: "char \<Rightarrow> bool" where
  "is_digit c = (c \<in> set ''0123456789'')"

definition is_hex_letter :: "char \<Rightarrow> bool" where
  "is_hex_letter c = (c \<in> set ''abcdefABCDEF'')"

definition to_lower :: "char \<Rightarrow> char" where
  "to_lower c =
     (case index_in ''ABCDEFGHIJKLMNOPQRSTUVWXYZ'' c of
        Some n \<Rightarrow> ''abcdefghijklmnopqrstuvwxyz'' ! n
      | None \<Rightarrow> c)"

text \<open>\<open>underscoreOK\<close>: an underscore stands only between digits, or between a base
  prefix and a digit.  \<open>saw\<close> is the kind of the last character.\<close>

fun underscore_scan :: "bool \<Rightarrow> char \<Rightarrow> string \<Rightarrow> bool" where
  "underscore_scan hex saw [] = (saw \<noteq> CHR ''_'')"
| "underscore_scan hex saw (c # cs) =
     (if is_digit c \<or> (hex \<and> is_hex_letter c) then underscore_scan hex (CHR ''0'') cs
      else if c = CHR ''_'' then
        (if saw \<noteq> CHR ''0'' then False else underscore_scan hex (CHR ''_'') cs)
      else if saw = CHR ''_'' then False
      else underscore_scan hex (CHR ''!'') cs)"

definition underscoreOK :: "string \<Rightarrow> bool" where
  "underscoreOK s =
     (let s1 = (if 1 \<le> length s \<and> (hd s = CHR ''-'' \<or> hd s = CHR ''+'') then tl s else s)
      in if 2 \<le> length s1 \<and> s1 ! 0 = CHR ''0'' \<and> s1 ! 1 \<in> set ''bBoOxX''
         then underscore_scan (s1 ! 1 \<in> set ''xX'') (CHR ''0'') (drop 2 s1)
         else underscore_scan False (CHR ''^'') s1)"

text \<open>The digit loop of \<open>ParseUint\<close> on a \<open>uint64\<close> accumulator; the flag records an
  underscore.  The first overflow ends the loop, whatever follows.\<close>

fun uint_loop :: "bool \<Rightarrow> nat \<Rightarrow> nat \<Rightarrow> nat \<Rightarrow> string \<Rightarrow> nat \<Rightarrow> bool \<Rightarrow> numerr + nat \<times> bool" where
  "uint_loop base0 base cutoff maxVal [] n us = Inr (n, us)"
| "uint_loop base0 base cutoff maxVal (c # cs) n us =
     (if c = CHR ''_'' \<and> base0 then uint_loop base0 base cutoff maxVal cs n True
      else case digit_val c of
        None \<Rightarrow> Inl ErrSyntax
      | Some d \<Rightarrow>
          if base \<le> d then Inl ErrSyntax
          else if cutoff \<le> n then Inl ErrRange
          else (let n' = n * base; n1 = (n' + d) mod 2 ^ 64
                in if n1 < n' \<or> maxVal < n1 then Inl ErrRange
                   else uint_loop base0 base cutoff maxVal cs n1 us))"

text \<open>\<open>IntSize\<close> of a 64-bit platform.\<close>

definition IntSize :: nat where "IntSize = 64"

text \<open>\<open>strconv.ParseUint(s, base, bitSize)\<close>: the value and the error, as Go returns both.\<close>

definition ParseUint :: "string \<Rightarrow> nat \<Rightarrow> nat \<Rightarrow> nat \<times> error option" where
  "ParseUint s base bitSize =
     (if s = [] then (0, Some (NumError ''ParseUint'' s ErrSyntax))
      else if \<not> (2 \<le> base \<and> base \<le> 36) \<and> base \<noteq> 0 then (0, Some (NumError ''ParseUint'' s ErrBase))
      else if 64 < bitSize then (0, Some (NumError ''ParseUint'' s ErrBitSize))
      else
        (let (b, t) =
               (if base \<noteq> 0 then (base, s)
                else if hd s = CHR ''0'' then
                  (if 3 \<le> length s \<and> s ! 1 \<in> set ''bB'' then (2, drop 2 s)
                   else if 3 \<le> length s \<and> s ! 1 \<in> set ''oO'' then (8, drop 2 s)
                   else if 3 \<le> length s \<and> s ! 1 \<in> set ''xX'' then (16, drop 2 s)
                   else (8, drop 1 s))
                else (10, s));
             bits = (if bitSize = 0 then IntSize else bitSize);
             cutoff = (2 ^ 64 - 1) div b + 1;
             maxVal = 2 ^ bits - 1
         in case uint_loop (base = 0) b cutoff maxVal t 0 False of
              Inl ErrRange \<Rightarrow> (maxVal, Some (NumError ''ParseUint'' s ErrRange))
            | Inl e \<Rightarrow> (0, Some (NumError ''ParseUint'' s e))
            | Inr (n, us) \<Rightarrow>
                if us \<and> \<not> underscoreOK s then (0, Some (NumError ''ParseUint'' s ErrSyntax))
                else (n, None)))"

text \<open>\<open>strconv.ParseInt(s, base, bitSize)\<close>: a range error returns the value of largest
  magnitude with the sign of the input.\<close>

definition ParseInt :: "string \<Rightarrow> nat \<Rightarrow> nat \<Rightarrow> int \<times> error option" where
  "ParseInt s base bitSize =
     (if s = [] then (0, Some (NumError ''ParseInt'' s ErrSyntax))
      else
        (let neg = (hd s = CHR ''-'');
             t = (if hd s = CHR ''+'' \<or> hd s = CHR ''-'' then tl s else s);
             bits = (if bitSize = 0 then IntSize else bitSize);
             cutoff = 2 ^ (bits - 1)
         in case ParseUint t base bitSize of
              (un, Some (NumError f x ErrRange)) \<Rightarrow>
                (if \<not> neg \<and> cutoff \<le> un then (int cutoff - 1, Some (NumError ''ParseInt'' s ErrRange))
                 else if neg \<and> cutoff < un then (- int cutoff, Some (NumError ''ParseInt'' s ErrRange))
                 else (if neg then - int un else int un, None))
            | (un, Some (NumError f x e)) \<Rightarrow> (0, Some (NumError ''ParseInt'' s e))
            | (un, Some e) \<Rightarrow> (0, Some e)
            | (un, None) \<Rightarrow>
                (if \<not> neg \<and> cutoff \<le> un then (int cutoff - 1, Some (NumError ''ParseInt'' s ErrRange))
                 else if neg \<and> cutoff < un then (- int cutoff, Some (NumError ''ParseInt'' s ErrRange))
                 else (if neg then - int un else int un, None))))"

text \<open>The fast path of \<open>strconv.Atoi\<close>: an optional sign and decimal digits only.\<close>

fun atoi_digits :: "string \<Rightarrow> nat \<Rightarrow> nat option" where
  "atoi_digits [] n = Some n"
| "atoi_digits (c # cs) n =
     (if is_digit c then atoi_digits cs (n * 10 + the (digit_val c)) else None)"

text \<open>\<open>strconv.Atoi\<close>: inputs of 1 to 18 bytes take the fast path, all others go through
  \<open>ParseInt(s, 10, 0)\<close>.\<close>

definition Atoi :: "string \<Rightarrow> int \<times> error option" where
  "Atoi s =
     (if 0 < length s \<and> length s < 19 then
        (let t = (if hd s = CHR ''-'' \<or> hd s = CHR ''+'' then tl s else s)
         in if length t < 1 then (0, Some (NumError ''Atoi'' s ErrSyntax))
            else case atoi_digits t 0 of
                   None \<Rightarrow> (0, Some (NumError ''Atoi'' s ErrSyntax))
                 | Some n \<Rightarrow> (if hd s = CHR ''-'' then - int n else int n, None))
      else case ParseInt s 10 0 of
             (i, Some (NumError f x e)) \<Rightarrow> (i, Some (NumError ''Atoi'' x e))
           | (i, r) \<Rightarrow> (i, r))"

text \<open>The mantissa loop of \<open>readFloat\<close>: digits with at most one point, underscores
  noted.  The result is whether a digit was seen, whether an underscore was seen, the digits
  read as a number in the base, how many of them follow the point, and the unread rest.\<close>

fun read_mantissa ::
  "nat \<Rightarrow> string \<Rightarrow> bool \<Rightarrow> bool \<Rightarrow> bool \<Rightarrow> nat \<Rightarrow> nat \<Rightarrow> bool \<times> bool \<times> nat \<times> nat \<times> string" where
  "read_mantissa base [] sawdot sawdigits us mant nfrac = (sawdigits, us, mant, nfrac, [])"
| "read_mantissa base (c # cs) sawdot sawdigits us mant nfrac =
     (if c = CHR ''_'' then read_mantissa base cs sawdot sawdigits True mant nfrac
      else if c = CHR ''.'' then
        (if sawdot then (sawdigits, us, mant, nfrac, c # cs)
         else read_mantissa base cs True sawdigits us mant nfrac)
      else if is_digit c \<or> (base = 16 \<and> is_hex_letter c) then
        read_mantissa base cs sawdot True us (mant * base + the (digit_val c))
          (if sawdot then Suc nfrac else nfrac)
      else (sawdigits, us, mant, nfrac, c # cs))"

text \<open>The exponent digits; the exponent stops growing at 10000.\<close>

fun read_exponent :: "string \<Rightarrow> nat \<Rightarrow> bool \<Rightarrow> nat \<times> bool \<times> string" where
  "read_exponent [] e us = (e, us, [])"
| "read_exponent (c # cs) e us =
     (if c = CHR ''_'' then read_exponent cs e True
      else if is_digit c then
        read_exponent cs (if e < 10000 then e * 10 + the (digit_val c) else e) us
      else (e, us, c # cs))"

definition scale :: "real \<Rightarrow> int \<Rightarrow> real \<Rightarrow> real" where
  "scale b k x = (if 0 \<le> k then x * b ^ nat k else x / b ^ nat (- k))"

text \<open>\<open>readFloat\<close>: the number a prefix of \<open>s\<close> denotes (decimal, or hexadecimal with
  a binary exponent) and the unread rest; \<open>None\<close> where \<open>readFloat\<close> reports no number.\<close>

definition readFloat :: "string \<Rightarrow> (real \<times> string) option" where
  "readFloat s =
     (if s = [] then None
      else
        (let neg = (hd s = CHR ''-'');
             s1 = (if hd s = CHR ''+'' \<or> hd s = CHR ''-'' then tl s else s);
             hex = (2 < length s1 \<and> s1 ! 0 = CHR ''0'' \<and> s1 ! 1 \<in> set ''xX'');
             base = (if hex then 16 else 10)
         in case read_mantissa base (if hex then drop 2 s1 else s1) False False False 0 0 of
              (sawdigits, us, mant, nfrac, r1) \<Rightarrow>
                if \<not> sawdigits then None
                else
                  (let ex =
                         (if r1 \<noteq> [] \<and> to_lower (hd r1) = (if hex then CHR ''p'' else CHR ''e'') then
                            (let r2 = tl r1
                             in if r2 = [] then None
                                else
                                  (let r3 = (if hd r2 = CHR ''+'' \<or> hd r2 = CHR ''-'' then tl r2 else r2)
                                   in if r3 = [] \<or> \<not> is_digit (hd r3) then None
                                      else case read_exponent r3 0 us of
                                             (e, us', r4) \<Rightarrow>
                                               Some (if hd r2 = CHR ''-'' then - int e else int e, us', r4)))
                          else if hex then None
                          else Some (0, us, r1))
                   in case ex of
                        None \<Rightarrow> None
                      | Some (e, us', rest) \<Rightarrow>
                          if us' \<and> \<not> underscoreOK (take (length s - length rest) s) then None
                          else
                            (let v = (if hex then scale 2 (e - 4 * int nfrac) (of_nat mant)
                                      else scale 10 (e - int nfrac) (of_nat mant))
                             in Some (if neg then - v else v, rest)))))"

text \<open>
  \<open>strconv.ParseFloat(s, 64)\<close>.  The strings that Go reads as an infinity or as NaN
  (\<open>special\<close>: decided from the first byte on, case ignored) have no value in the model:
  they are answered by the cause \<open>NonFinite\<close>.  A number whose
  magnitude rounds beyond the largest \<open>float64\<close> (it reaches \<open>float64_overflow\<close>, half
  way from the largest value to the next power of two) is a range error.
\<close>

definition float64_overflow :: real where
  "float64_overflow = 2 ^ 1024 - 2 ^ 970"

definition special :: "string \<Rightarrow> bool" where
  "special s =
     (s \<noteq> [] \<and> hd s \<in> set ''+-iInN'' \<and>
      map to_lower s \<in>
        set [''inf'', ''+inf'', ''-inf'', ''infinity'', ''+infinity'', ''-infinity'', ''nan''])"

definition ParseFloat :: "string \<Rightarrow> error + real" where
  "ParseFloat s =
     (if special s then Inl (NumError ''ParseFloat'' s NonFinite)
      else case readFloat s of
        None \<Rightarrow> Inl (NumError ''ParseFloat'' s ErrSyntax)
      | Some (x, rest) \<Rightarrow>
          if rest \<noteq> [] then Inl (NumError ''ParseFloat'' s ErrSyntax)
          else if float64_overflow \<le> \<bar>x\<bar> then Inl (NumError ''ParseFloat'' s ErrRange)
          else Inr x)"

section \<open>Coordinates\<close>

text \<open>\<open>type CardinalPoint string\<close> with its four constants; \<open>type LatLong float64\<close>.\<close>

type_synonym CardinalPoint = string
type_synonym LatLong = real

definition North :: CardinalPoint where "North = ''N''"
definition South :: CardinalPoint where "South = ''S''"
definition East :: CardinalPoint where "East = ''E''"
definition West :: CardinalPoint where "West = ''W''"

definition CardinalPoint_String :: "CardinalPoint \<Rightarrow> string" where
  "CardinalPoint_String c = c"

definition MaxLong :: real where "MaxLong = 180"
definition MaxLat :: real where "MaxLat = 90"

text \<open>\<open>LatLong.CardinalPoint\<close>.\<close>

definition CardinalPoint :: "LatLong \<Rightarrow> bool \<Rightarrow> CardinalPoint" where
  "CardinalPoint l isLatitude =
     (if l = 0 then []
      else if l < 0 then (if isLatitude then South else West)
      else if isLatitude then North else East)"

text \<open>\<open>LatLong.DM\<close>: whole degrees (towards zero) and minutes.\<close>

definition DM :: "LatLong \<Rightarrow> int \<times> real" where
  "DM l =
     (if 0 \<le> l then
        (let d = of_int \<lfloor>l\<rfloor> in (\<lfloor>d\<rfloor>, (l - d) * 60))
      else
        (let d = of_int \<lceil>l\<rceil> in (\<lfloor>d :: real\<rfloor>, (\<bar>l\<bar> - \<bar>d\<bar>) * 60)))"

text \<open>\<open>LatLong.ToDM\<close>: \<open>Sprintf("%02d%09.6f", d, m)\<close> with the zeros at both ends cut.\<close>

definition ToDM :: "LatLong \<Rightarrow> string" where
  "ToDM l =
     (if l = 0 then []
      else case DM l of (d, m) \<Rightarrow> Trim (fmt_d 2 d @ fmt_f 9 6 m) ''0'')"

text \<open>\<open>ParseCardinalPoint\<close>: the value and the error, as the named results return both.\<close>

definition ParseCardinalPoint :: "string \<Rightarrow> CardinalPoint \<times> error option" where
  "ParseCardinalPoint raw =
     (raw, if raw = North \<or> raw = South \<or> raw = East \<or> raw = West then None else Some UnknowValue)"

text \<open>The conversion \<open>string(b)\<close> of one byte: the UTF-8 encoding of the code point \<open>b\<close>.\<close>

definition string_of_byte :: "char \<Rightarrow> string" where
  "string_of_byte c =
     (if digit7 c then
        [if digit6 c then CHR 0xC3 else CHR 0xC2,
         Char (digit0 c) (digit1 c) (digit2 c) (digit3 c) (digit4 c) (digit5 c) False True]
      else [c])"

text \<open>\<open>ParseDM\<close>: the number is read from all but the last two bytes, the direction
  from the last byte.\<close>

definition ParseDM :: "string \<Rightarrow> error + LatLong" where
  "ParseDM raw =
     (if length raw < 2 then Inl (WrongDMFormat raw)
      else case ParseFloat (TrimSpace (take (length raw - 2) raw)) of
        Inl e \<Rightarrow> Inl e
      | Inr dm0 \<Rightarrow>
          (case ParseCardinalPoint (string_of_byte (raw ! (length raw - 1))) of
             (dir, Some e) \<Rightarrow> Inl e
           | (dir, None) \<Rightarrow>
               (let d = of_int \<lfloor>dm0 / 100\<rfloor>;
                    m = dm0 - d * 100;
                    dm = d + m / 60
                in if (dir = North \<or> dir = South) \<and> MaxLat < \<bar>dm\<bar> then Inl (InvalidRange dm)
                   else if (dir = East \<or> dir = West) \<and> MaxLong < \<bar>dm\<bar> then Inl (InvalidRange dm)
                   else if \<not> (dir = North \<or> dir = South \<or> dir = East \<or> dir = West)
                     then Inl (WrongDirection dir)
                   else if dir = North \<or> dir = East then Inr dm
                   else if dir = South \<or> dir = West then Inr (0 - dm)
                   else Inl (WrongDirection dir))))"

text \<open>\<open>NewLatLong\<close>.\<close>

definition NewLatLong :: "string \<Rightarrow> error + LatLong" where
  "NewLatLong raw = (if TrimSpace raw = [] then Inl EmptyLatLong else ParseDM raw)"

section \<open>Package \<open>time\<close>\<close>

text \<open>A \<open>time.Time\<close> in UTC.  The zero value is 1 January of year 1, 00:00:00.\<close>

record Time =
  Year :: int
  Month :: nat
  Day :: nat
  Hour :: nat
  Minute :: nat
  Second :: nat
  Nanosecond :: nat

definition zero_Time :: Time where
  "zero_Time = \<lparr>Year = 1, Month = 1, Day = 1, Hour = 0, Minute = 0, Second = 0, Nanosecond = 0\<rparr>"

text \<open>\<open>getnum\<close>: one or two leading digits; exactly two when \<open>fixed\<close>.\<close>

definition getnum :: "string \<Rightarrow> bool \<Rightarrow> (nat \<times> string) option" where
  "getnum s fixed =
     (if \<not> (0 < length s \<and> is_digit (s ! 0)) then None
      else if \<not> (1 < length s \<and> is_digit (s ! 1)) then
        (if fixed then None else Some (the (digit_val (s ! 0)), drop 1 s))
      else Some (the (digit_val (s ! 0)) * 10 + the (digit_val (s ! 1)), drop 2 s))"

text \<open>The package's own \<open>atoi\<close>, on the short digit groups it is given here: an optional
  sign, then digits only (none at all reads as 0).\<close>

definition time_atoi :: "string \<Rightarrow> int option" where
  "time_atoi s =
     (let t = (if s \<noteq> [] \<and> (hd s = CHR ''-'' \<or> hd s = CHR ''+'') then tl s else s)
      in case atoi_digits t 0 of
           None \<Rightarrow> None
         | Some n \<Rightarrow> Some (if s \<noteq> [] \<and> hd s = CHR ''-'' then - int n else int n))"

text \<open>The clock part \<open>150405.000\<close> of a layout, which ends the layout: hour (one or two
  digits), minute, second, and a point or comma with three digits; nothing may follow.\<close>

definition parse_clock :: "string \<Rightarrow> (nat \<times> nat \<times> nat \<times> nat) option" where
  "parse_clock v =
     (case getnum v False of
        None \<Rightarrow> None
      | Some (hour, v1) \<Rightarrow>
          if 24 \<le> hour then None
          else case getnum v1 True of
            None \<Rightarrow> None
          | Some (mn, v2) \<Rightarrow>
              if 60 \<le> mn then None
              else case getnum v2 True of
                None \<Rightarrow> None
              | Some (sec, v3) \<Rightarrow>
                  if 60 \<le> sec then None
                  else if length v3 < 4 then None
                  else if \<not> (hd v3 = CHR ''.'' \<or> hd v3 = CHR '','') then None
                  else case time_atoi (take 3 (tl v3)) of
                    None \<Rightarrow> None
                  | Some ns \<Rightarrow>
                      if ns < 0 then None
                      else if drop 4 v3 \<noteq> [] then None
                      else Some (hour, mn, sec, nat ns * 10 ^ 6))"

text \<open>\<open>time.Parse("150405.000", v)\<close>: the date is 1 January of year 0.\<close>

definition Parse_150405 :: "string \<Rightarrow> error + Time" where
  "Parse_150405 v =
     (case parse_clock v of
        None \<Rightarrow> Inl TimeParseError
      | Some (h, mn, sec, ns) \<Rightarrow>
          Inr \<lparr>Year = 0, Month = 1, Day = 1, Hour = h, Minute = mn, Second = sec, Nanosecond = ns\<rparr>)"

definition isLeap :: "int \<Rightarrow> bool" where
  "isLeap y = (y mod 4 = 0 \<and> (y mod 100 \<noteq> 0 \<or> y mod 400 = 0))"

definition daysIn :: "nat \<Rightarrow> int \<Rightarrow> nat" where
  "daysIn m y =
     (if m = 2 then (if isLeap y then 29 else 28)
      else if m \<in> {4, 6, 9, 11} then 30 else 31)"

text \<open>\<open>time.Parse("020106 150405.000", v)\<close>: day, month and a two-digit year (69 to 99
  in the 1900s, the others in the 2000s), one or more spaces, then the clock.  The day is
  checked against the month at the end.\<close>

definition Parse_020106_150405 :: "string \<Rightarrow> error + Time" where
  "Parse_020106_150405 v =
     (case getnum v True of
        None \<Rightarrow> Inl TimeParseError
      | Some (day, v1) \<Rightarrow>
          (case getnum v1 True of
             None \<Rightarrow> Inl TimeParseError
           | Some (month, v2) \<Rightarrow>
               if month = 0 \<or> 12 < month then Inl TimeParseError
               else if length v2 < 2 then Inl TimeParseError
               else case time_atoi (take 2 v2) of
                 None \<Rightarrow> Inl TimeParseError
               | Some yy \<Rightarrow>
                   (let year = (if 69 \<le> yy then yy + 1900 else yy + 2000);
                        v3 = drop 2 v2
                    in if 0 < length v3 \<and> hd v3 \<noteq> CHR '' '' then Inl TimeParseError
                       else case parse_clock (dropWhile (\<lambda>c. c = CHR '' '') v3) of
                         None \<Rightarrow> Inl TimeParseError
                       | Some (h, mn, sec, ns) \<Rightarrow>
                           if day < 1 \<or> daysIn month year < day then Inl TimeParseError
                           else Inr \<lparr>Year = year, Month = month, Day = day, Hour = h, Minute = mn,
                                     Second = sec, Nanosecond = ns\<rparr>)))"

text \<open>\<open>Time.Format("150405.000")\<close>: the milliseconds are cut, not rounded.\<close>

definition Format_150405 :: "Time \<Rightarrow> string" where
  "Format_150405 t =
     fmt_d 2 (int (Hour t)) @ fmt_d 2 (int (Minute t)) @ fmt_d 2 (int (Second t)) @ ''.'' @
     fmt_d 3 (int (Nanosecond t div 10 ^ 6))"

section \<open>Enumerated values\<close>

text \<open>\<open>type QualityIndicator int\<close> and \<open>type FixStatus int\<close> with their constants.\<close>

type_synonym QualityIndicator = int
type_synonym FixStatus = int

definition InvalidIndicator :: QualityIndicator where "InvalidIndicator = 0"
definition GNSSS :: QualityIndicator where "GNSSS = 1"
definition DGPS :: QualityIndicator where "DGPS = 2"

definition FixStatusNoFix :: FixStatus where "FixStatusNoFix = 1"
definition FixStatus2D :: FixStatus where "FixStatus2D = 2"
definition FixStatus3D :: FixStatus where "FixStatus3D = 3"

text \<open>\<open>ParseQualityIndicator\<close>: both named results, the value and the error.\<close>

definition ParseQualityIndicator :: "string \<Rightarrow> QualityIndicator \<times> error option" where
  "ParseQualityIndicator raw =
     (case ParseInt raw 10 0 of
        (i, Some e) \<Rightarrow> (0, Some e)
      | (i, None) \<Rightarrow>
          (i, if i = InvalidIndicator \<or> i = GNSSS \<or> i = DGPS then None else Some UnknowValue))"

definition ParseFixStatus :: "string \<Rightarrow> FixStatus \<times> error option" where
  "ParseFixStatus raw =
     (case ParseInt raw 10 0 of
        (i, Some e) \<Rightarrow> (0, Some e)
      | (i, None) \<Rightarrow>
          (i, if i = FixStatusNoFix \<or> i = FixStatus2D \<or> i = FixStatus3D then None
              else Some (UnknowValueInt i)))"

text \<open>\<open>type Mode string\<close>.\<close>

type_synonym Mode = string

definition ModeManual :: Mode where "ModeManual = ''M''"
definition ModeAuto :: Mode where "ModeAuto = ''A''"

definition Mode_String :: "Mode \<Rightarrow> string" where
  "Mode_String m = m"

definition ParseMode :: "string \<Rightarrow> Mode \<times> error option" where
  "ParseMode raw =
     (raw, if raw = ModeManual \<or> raw = ModeAuto then None else Some (UnknowValueStr raw))"

text \<open>
  Modelled from the spec: \<open>PositioningMode\<close> and \<open>ParsePositioningMode\<close> are not among the
  sources (the sentences convert the value with \<open>string(m.PositioningMode)\<close>, so it is a
  string type).  The spec lists the members Autonomous, Differential, Estimated and
  NotValid with single-letter tokens, and its first scenario reads the token \<open>A\<close> as
  Autonomous; the tokens are taken to be the initials.
\<close>

type_synonym PositioningMode = string

definition Autonomous :: PositioningMode where "Autonomous = ''A''"
definition Differential :: PositioningMode where "Differential = ''D''"
definition Estimated :: PositioningMode where "Estimated = ''E''"
definition NotValid :: PositioningMode where "NotValid = ''N''"

definition ParsePositioningMode :: "string \<Rightarrow> PositioningMode \<times> error option" where
  "ParsePositioningMode raw =
     (raw, if raw = Autonomous \<or> raw = Differential \<or> raw = Estimated \<or> raw = NotValid
           then None else Some UnknowValue)"

text \<open>
  Modelled from the spec: \<open>DataValid\<close> (a boolean, set by \<open>m.Fields[5] == "A"\<close>) has a
  \<open>Serialize\<close> that is not among the sources; the spec gives the wire tokens \<open>A\<close> and
  \<open>V\<close>.
\<close>

type_synonym DataValid = bool

definition DataValid_Serialize :: "DataValid \<Rightarrow> string" where
  "DataValid_Serialize v = (if v then ''A'' else ''V'')"

section \<open>Sentences\<close>

text \<open>The block that the sentences with a position repeat for each coordinate: the number
  and the letter joined by a space; a pair that is empty leaves the field of the receiver
  as it is.\<close>

definition coordinate :: "string list \<Rightarrow> LatLong \<Rightarrow> error + LatLong" where
  "coordinate pair old =
     (let joined = TrimSpace (Join pair '' '')
      in if 0 < length joined then NewLatLong joined else Inr old)"

text \<open>
  The loop over a map literal of fixed fields.  Go leaves the order of a \<open>range\<close> over a
  map open, so the order in which the entries are visited is an argument.  The first entry
  that differs gives the error (with the position counted from 1).
\<close>

fun validate_fixed :: "(nat \<times> string) list \<Rightarrow> string list \<Rightarrow> error option" where
  "validate_fixed [] f = None"
| "validate_fixed ((i, v) # rest) f =
     (if length f \<le> i then Some (PanicIndex i (length f))
      else if f ! i \<noteq> v then Some (InvalidFixedField (i + 1) (f ! i) v)
      else validate_fixed rest f)"

subsection \<open>DBT\<close>

record GPDBT =
  Message :: Message
  DepthInFeet :: real
  DepthInMeters :: real
  DepthInFathoms :: real

definition NewGPDBT :: "Message \<Rightarrow> GPDBT" where
  "NewGPDBT m = \<lparr>GPDBT.Message = m, DepthInFeet = 0, DepthInMeters = 0, DepthInFathoms = 0\<rparr>"

definition GPDBT_fixed :: "(nat \<times> string) list" where
  "GPDBT_fixed = [(1, ''f''), (3, ''M''), (5, ''F'')]"

text \<open>\<open>GPDBT.parse\<close>.  The error for the depth in fathoms prints \<open>m.Fields[6]\<close>, which a
  message of six fields does not have: that path panics.\<close>

definition parse_GPDBT :: "(nat \<times> string) list \<Rightarrow> GPDBT \<Rightarrow> error + GPDBT" where
  "parse_GPDBT ord m =
     (let msg = GPDBT.Message m; f = Fields msg
      in if length f \<noteq> 6 then Inl (Message_Error msg (Incomplete ''GPDBT'' (length f) 6))
         else case validate_fixed ord f of
           Some (PanicIndex i n) \<Rightarrow> Inl (PanicIndex i n)
         | Some e \<Rightarrow> Inl (Message_Error msg e)
         | None \<Rightarrow>
             (case ParseFloat (f ! 0) of
                Inl e \<Rightarrow> Inl (Message_Error msg (UnableToParse ''depth in feet'' (f ! 0)))
              | Inr feet \<Rightarrow>
                  (case ParseFloat (f ! 2) of
                     Inl e \<Rightarrow> Inl (Message_Error msg (UnableToParse ''depth in meters'' (f ! 4)))
                   | Inr meters \<Rightarrow>
                       (case ParseFloat (f ! 4) of
                          Inl e \<Rightarrow> Inl (PanicIndex 6 (length f))
                        | Inr fathoms \<Rightarrow>
                            Inr (m\<lparr>DepthInFeet := feet, DepthInMeters := meters,
                                    DepthInFathoms := fathoms\<rparr>)))))"

subsection \<open>VTG\<close>

record GPVTG =
  Message :: Message
  COG :: real
  SpeedKnots :: real
  SpeedKmh :: real
  PositioningMode :: PositioningMode

definition NewGPVTG :: "Message \<Rightarrow> GPVTG" where
  "NewGPVTG m =
     \<lparr>GPVTG.Message = m, GPVTG.COG = 0, SpeedKnots = 0, SpeedKmh = 0, GPVTG.PositioningMode = []\<rparr>"

definition GPVTG_fixed :: "(nat \<times> string) list" where
  "GPVTG_fixed = [(1, ''T''), (3, ''M''), (5, ''N''), (7, ''K'')]"

definition parse_GPVTG :: "(nat \<times> string) list \<Rightarrow> GPVTG \<Rightarrow> error + GPVTG" where
  "parse_GPVTG ord m =
     (let msg = GPVTG.Message m; f = Fields msg
      in if length f \<noteq> 9 then Inl (Message_Error msg (Incomplete ''GPVTG'' (length f) 9))
         else case validate_fixed ord f of
           Some (PanicIndex i n) \<Rightarrow> Inl (PanicIndex i n)
         | Some e \<Rightarrow> Inl (Message_Error msg e)
         | None \<Rightarrow>
             (case ParseFloat (f ! 0) of
                Inl e \<Rightarrow>
                  Inl (Message_Error msg (UnableToParse ''true course over ground'' (f ! 0)))
              | Inr cog \<Rightarrow>
                  (case ParseFloat (f ! 4) of
                     Inl e \<Rightarrow> Inl (Message_Error msg (UnableToParse ''speed'' (f ! 4)))
                   | Inr knots \<Rightarrow>
                       (case ParseFloat (f ! 6) of
                          Inl e \<Rightarrow> Inl (Message_Error msg (UnableToParse ''speed'' (f ! 6)))
                        | Inr kmh \<Rightarrow>
                            (case ParsePositioningMode (f ! 8) of
                               (pm, Some e) \<Rightarrow>
                                 Inl (Message_Error msg
                                       (UnableToParse ''GPS positioning mode'' (f ! 8)))
                             | (pm, None) \<Rightarrow>
                                 Inr (m\<lparr>GPVTG.COG := cog, SpeedKnots := knots, SpeedKmh := kmh,
                                         GPVTG.PositioningMode := pm\<rparr>))))))"

subsection \<open>GLL\<close>

record GPGLL =
  Message :: Message
  TimeUTC :: Time
  Latitude :: LatLong
  Longitude :: LatLong
  IsValid :: DataValid
  PositioningMode :: PositioningMode

definition NewGPGLL :: "Message \<Rightarrow> GPGLL" where
  "NewGPGLL m =
     \<lparr>GPGLL.Message = m, GPGLL.TimeUTC = zero_Time, GPGLL.Latitude = 0, GPGLL.Longitude = 0,
      GPGLL.IsValid = False, GPGLL.PositioningMode = []\<rparr>"

definition parse_GPGLL :: "GPGLL \<Rightarrow> error + GPGLL" where
  "parse_GPGLL m =
     (let msg = GPGLL.Message m; f = Fields msg
      in if length f \<noteq> 7 then Inl (Message_Error msg (Incomplete ''GPGLL'' (length f) 7))
         else case coordinate (take 2 f) (GPGLL.Latitude m) of
           Inl e \<Rightarrow> Inl (Message_Error msg e)
         | Inr lat \<Rightarrow>
             (case coordinate (take 2 (drop 2 f)) (GPGLL.Longitude m) of
                Inl e \<Rightarrow> Inl (Message_Error msg e)
              | Inr lon \<Rightarrow>
                  (case Parse_150405 (f ! 4) of
                     Inl e \<Rightarrow> Inl (Message_Error msg (UnableToParse ''time UTC'' (f ! 4)))
                   | Inr t \<Rightarrow>
                       (case ParsePositioningMode (f ! 6) of
                          (pm, Some e) \<Rightarrow>
                            Inl (Message_Error msg (UnableToParse ''GPS positioning mode'' (f ! 6)))
                        | (pm, None) \<Rightarrow>
                            Inr (m\<lparr>GPGLL.TimeUTC := t, GPGLL.Latitude := lat,
                                    GPGLL.Longitude := lon, GPGLL.IsValid := (f ! 5 = ''A''),
                                    GPGLL.PositioningMode := pm\<rparr>)))))"

text \<open>The fields that \<open>GPGLL.Serialize\<close> hands to the message it builds.\<close>

definition GPGLL_Serialize_fields :: "GPGLL \<Rightarrow> string list" where
  "GPGLL_Serialize_fields m =
     [Format_150405 (GPGLL.TimeUTC m),
      Trim (ToDM (GPGLL.Latitude m)) ''0'',
      CardinalPoint_String (CardinalPoint (GPGLL.Latitude m) True),
      Trim (ToDM (GPGLL.Longitude m)) ''0'',
      CardinalPoint_String (CardinalPoint (GPGLL.Longitude m) False),
      DataValid_Serialize (GPGLL.IsValid m)]"

subsection \<open>GGA\<close>

record GPGGA =
  Message :: Message
  TimeUTC :: Time
  Latitude :: LatLong
  Longitude :: LatLong
  QualityIndicator :: QualityIndicator
  NbOfSatellitesUsed :: "64 word"
  HDOP :: real
  Altitude :: real
  GeoIDSep :: "real option"
  DGPSAge :: "real option"
  DGPSStationID :: "8 word option"

definition NewGPGGA :: "Message \<Rightarrow> GPGGA" where
  "NewGPGGA m =
     \<lparr>GPGGA.Message = m, GPGGA.TimeUTC = zero_Time, GPGGA.Latitude = 0, GPGGA.Longitude = 0,
      QualityIndicator = 0, NbOfSatellitesUsed = 0, GPGGA.HDOP = 0, Altitude = 0,
      GeoIDSep = None, DGPSAge = None, DGPSStationID = None\<rparr>"

definition GPGGA_fixed :: "(nat \<times> string) list" where
  "GPGGA_fixed = [(9, ''M''), (11, ''M'')]"

text \<open>An optional number: an empty field leaves the receiver's value, any other field
  must parse.\<close>

definition optional_float :: "string \<Rightarrow> real \<Rightarrow> error + real" where
  "optional_float field old = (if 0 < length field then ParseFloat field else Inr old)"

definition optional_float_ptr :: "string \<Rightarrow> real option \<Rightarrow> error + real option" where
  "optional_float_ptr field old =
     (if 0 < length field then
        (case ParseFloat field of Inl e \<Rightarrow> Inl e | Inr v \<Rightarrow> Inr (Some v))
      else Inr old)"

definition parse_GPGGA :: "(nat \<times> string) list \<Rightarrow> GPGGA \<Rightarrow> error + GPGGA" where
  "parse_GPGGA ord m =
     (let msg = GPGGA.Message m; f = Fields msg
      in if length f \<noteq> 14 then Inl (Incomplete ''GPGGA'' (length f) 14)
         else case validate_fixed ord f of
           Some e \<Rightarrow> Inl e
         | None \<Rightarrow>
         (case Parse_150405 (f ! 0) of
            Inl e \<Rightarrow> Inl (Message_Error msg (UnableToParse ''time UTC'' (f ! 0)))
          | Inr t \<Rightarrow>
         (case coordinate (take 2 (drop 1 f)) (GPGGA.Latitude m) of
            Inl e \<Rightarrow> Inl (Message_Error msg e)
          | Inr lat \<Rightarrow>
         (case coordinate (take 2 (drop 3 f)) (GPGGA.Longitude m) of
            Inl e \<Rightarrow> Inl (Message_Error msg e)
          | Inr lon \<Rightarrow>
         (case ParseQualityIndicator (f ! 5) of
            (qi, Some e) \<Rightarrow> Inl (Message_Error msg e)
          | (qi, None) \<Rightarrow>
         (case ParseUint (f ! 6) 10 0 of
            (nb, Some e) \<Rightarrow> Inl (Message_Error msg e)
          | (nb, None) \<Rightarrow>
         (case optional_float (f ! 7) (GPGGA.HDOP m) of
            Inl e \<Rightarrow> Inl (Message_Error msg e)
          | Inr hdop \<Rightarrow>
         (case optional_float (f ! 8) (Altitude m) of
            Inl e \<Rightarrow> Inl (Message_Error msg e)
          | Inr altitude \<Rightarrow>
         (case optional_float_ptr (f ! 10) (GeoIDSep m) of
            Inl e \<Rightarrow> Inl (Message_Error msg e)
          | Inr geo \<Rightarrow>
         (case optional_float_ptr (f ! 12) (DGPSAge m) of
            Inl e \<Rightarrow> Inl (Message_Error msg e)
          | Inr age \<Rightarrow>
         (case (if 0 < length (f ! 13) then
                  (case ParseUint (f ! 13) 0 8 of
                     (v, Some e) \<Rightarrow> Inl e
                   | (v, None) \<Rightarrow> Inr (Some (of_nat v :: 8 word)))
                else Inr (DGPSStationID m)) of
            Inl e \<Rightarrow> Inl (Message_Error msg e)
          | Inr station \<Rightarrow>
              Inr (m\<lparr>GPGGA.TimeUTC := t, GPGGA.Latitude := lat, GPGGA.Longitude := lon,
                      QualityIndicator := qi, NbOfSatellitesUsed := of_nat nb,
                      GPGGA.HDOP := hdop, Altitude := altitude, GeoIDSep := geo,
                      DGPSAge := age, DGPSStationID := station\<rparr>))))))))))))"

text \<open>
  The fields that \<open>GPGGA.Serialize\<close> hands to the message it builds.  \<open>PrependXZero\<close> is
  not among the sources; it is the argument \<open>pxz\<close>, called as the code calls it.
\<close>

definition GPGGA_Serialize_fields :: "(real \<Rightarrow> string \<Rightarrow> nat \<Rightarrow> string) \<Rightarrow> GPGGA \<Rightarrow> string list" where
  "GPGGA_Serialize_fields pxz m =
     [Format_150405 (GPGGA.TimeUTC m),
      Trim (ToDM (GPGGA.Latitude m)) ''0'',
      CardinalPoint_String (CardinalPoint (GPGGA.Latitude m) True),
      Trim (ToDM (GPGGA.Longitude m)) ''0'',
      CardinalPoint_String (CardinalPoint (GPGGA.Longitude m) False),
      fmt_d 0 (QualityIndicator m),
      fmt_d 0 (sint (NbOfSatellitesUsed m))] @
     [if 0 < GPGGA.HDOP m then fmt_f 3 1 (GPGGA.HDOP m) else []] @
     [if 0 < Altitude m then pxz (Altitude m) ''%03.1f'' 4 else []] @
     [''M''] @
     [case GeoIDSep m of Some v \<Rightarrow> fmt_f 3 1 v | None \<Rightarrow> []] @
     [''M''] @
     [case DGPSAge m of Some v \<Rightarrow> fmt_f 0 1 v | None \<Rightarrow> []] @
     [case DGPSStationID m of Some v \<Rightarrow> fmt_d 4 (uint v) | None \<Rightarrow> []]"

subsection \<open>GSA\<close>

record GPGSA =
  Message :: Message
  Mode :: Mode
  FixStatus :: FixStatus
  SatelliteUsedOnChannel :: "int list"
  PDOP :: real
  HDOP :: real
  VDOP :: real

text \<open>\<open>SatelliteUsedOnChannel\<close> is the array \<open>[13]int\<close>.\<close>

definition NewGPGSA :: "Message \<Rightarrow> GPGSA" where
  "NewGPGSA m =
     \<lparr>GPGSA.Message = m, Mode = [], FixStatus = 0, SatelliteUsedOnChannel = replicate 13 0,
      PDOP = 0, GPGSA.HDOP = 0, VDOP = 0\<rparr>"

text \<open>The loop \<open>for k, v := range m.Fields[2:14]\<close>: slot \<open>k + 1\<close> takes the value that
  \<open>strconv.Atoi\<close> returns, its error dropped.\<close>

fun store_satellites :: "nat \<Rightarrow> string list \<Rightarrow> int list \<Rightarrow> int list" where
  "store_satellites k [] a = a"
| "store_satellites k (v # vs) a = store_satellites (k + 1) vs (a[k + 1 := fst (Atoi v)])"

definition parse_GPGSA :: "GPGSA \<Rightarrow> error + GPGSA" where
  "parse_GPGSA m =
     (let msg = GPGSA.Message m; f = Fields msg
      in if length f \<noteq> 17 then Inl (Message_Error msg (Incomplete ''GPGSA'' (length f) 17))
         else case ParseMode (f ! 0) of
           (mode, Some e) \<Rightarrow> Inl (Message_Error msg e)
         | (mode, None) \<Rightarrow>
         (case ParseFixStatus (f ! 1) of
            (fs, Some e) \<Rightarrow> Inl (Message_Error msg e)
          | (fs, None) \<Rightarrow>
         (let sats = store_satellites 0 (take 12 (drop 2 f)) (SatelliteUsedOnChannel m)
          in case optional_float (f ! 14) (PDOP m) of
            Inl e \<Rightarrow> Inl (Message_Error msg e)
          | Inr pdop \<Rightarrow>
         (case optional_float (f ! 15) (GPGSA.HDOP m) of
            Inl e \<Rightarrow> Inl (Message_Error msg e)
          | Inr hdop \<Rightarrow>
         (case optional_float (f ! 16) (VDOP m) of
            Inl e \<Rightarrow> Inl (Message_Error msg e)
          | Inr vdop \<Rightarrow>
              Inr (m\<lparr>Mode := mode, FixStatus := fs, SatelliteUsedOnChannel := sats,
                      PDOP := pdop, GPGSA.HDOP := hdop, VDOP := vdop\<rparr>))))))"

subsection \<open>TXT\<close>

text \<open>\<open>Severity\<close> and \<open>ParseSeverity\<close> are not among the sources and the spec does not
  give the levels: the type is the parameter \<open>'sev\<close> and the parser the argument \<open>ps\<close>.\<close>

record 'sev GPTXT =
  Message :: Message
  TotalNbMsgInTx :: int
  MsgNumInTx :: int
  Severity :: 'sev
  TxtMsg :: string

definition NewGPTXT :: "'sev \<Rightarrow> Message \<Rightarrow> 'sev GPTXT" where
  "NewGPTXT sev0 m =
     \<lparr>GPTXT.Message = m, TotalNbMsgInTx = 0, MsgNumInTx = 0, Severity = sev0, TxtMsg = []\<rparr>"

definition parse_GPTXT :: "(string \<Rightarrow> 'sev \<times> error option) \<Rightarrow> 'sev GPTXT \<Rightarrow> error + 'sev GPTXT" where
  "parse_GPTXT ps m =
     (let msg = GPTXT.Message m; f = Fields msg
      in if length f \<noteq> 4 then Inl (Message_Error msg (Incomplete ''GPTXT'' (length f) 4))
         else case Atoi (f ! 0) of
           (tot, Some e) \<Rightarrow>
             Inl (Message_Error msg
                   (UnableToParse ''total number of messages in this transmission'' (f ! 0)))
         | (tot, None) \<Rightarrow>
         (case Atoi (f ! 1) of
            (num, Some e) \<Rightarrow>
              Inl (Message_Error msg
                    (UnableToParse ''message number in this transmission'' (f ! 1)))
          | (num, None) \<Rightarrow>
         (case ps (f ! 2) of
            (sev, Some e) \<Rightarrow>
              Inl (Message_Error msg (UnableToParse ''message severity'' (f ! 2)))
          | (sev, None) \<Rightarrow>
              Inr (m\<lparr>TotalNbMsgInTx := tot, MsgNumInTx := num, Severity := sev,
                      TxtMsg := Join (drop 3 f) '' ''\<rparr>))))"

subsection \<open>RMC\<close>

record GPRMC =
  Message :: Message
  DateTimeUTC :: Time
  IsValid :: DataValid
  Latitude :: LatLong
  Longitude :: LatLong
  Speed :: real
  COG :: real
  MagneticVariation :: real
  PositioningMode :: PositioningMode

definition NewGPRMC :: "Message \<Rightarrow> GPRMC" where
  "NewGPRMC m =
     \<lparr>GPRMC.Message = m, DateTimeUTC = zero_Time, GPRMC.IsValid = False, GPRMC.Latitude = 0,
      GPRMC.Longitude = 0, Speed = 0, GPRMC.COG = 0, MagneticVariation = 0,
      GPRMC.PositioningMode = []\<rparr>"

text \<open>The magnetic variation with its direction: a value is read only from a field that
  is not empty, and its sign is turned for West.\<close>

definition magnetic_variation :: "string \<Rightarrow> string \<Rightarrow> real \<Rightarrow> error + real" where
  "magnetic_variation field dir old =
     (if 0 < length field then
        (case ParseFloat field of
           Inl e \<Rightarrow> Inl (UnableToParse ''magnetic variation'' field)
         | Inr v \<Rightarrow>
             if 0 < length dir then
               (case ParseCardinalPoint dir of
                  (d, Some e) \<Rightarrow> Inl (UnableToParse ''magnetic variation indicator'' dir)
                | (d, None) \<Rightarrow>
                    if d = West then Inr (0 - v)
                    else if d = East then Inr v
                    else Inl (WrongMagneticVariationDirection dir))
             else Inr v)
      else Inr old)"

definition parse_GPRMC :: "GPRMC \<Rightarrow> error + GPRMC" where
  "parse_GPRMC m =
     (let msg = GPRMC.Message m; f = Fields msg
      in if length f \<noteq> 12 then Inl (Message_Error msg (Incomplete ''GPRMC'' (length f) 12))
         else
         (let datetime = f ! 8 @ '' '' @ f ! 0
          in case Parse_020106_150405 datetime of
            Inl e \<Rightarrow> Inl (Message_Error msg (UnableToParse ''datetime UTC'' datetime))
          | Inr t \<Rightarrow>
         (case coordinate (take 2 (drop 2 f)) (GPRMC.Latitude m) of
            Inl e \<Rightarrow> Inl (Message_Error msg e)
          | Inr lat \<Rightarrow>
         (case coordinate (take 2 (drop 4 f)) (GPRMC.Longitude m) of
            Inl e \<Rightarrow> Inl (Message_Error msg e)
          | Inr lon \<Rightarrow>
         (case ParseFloat (f ! 6) of
            Inl e \<Rightarrow> Inl (Message_Error msg (UnableToParse ''speed'' (f ! 6)))
          | Inr speed \<Rightarrow>
         (case ParseFloat (f ! 7) of
            Inl e \<Rightarrow> Inl (Message_Error msg (UnableToParse ''course over ground'' (f ! 7)))
          | Inr cog \<Rightarrow>
         (case magnetic_variation (f ! 9) (f ! 10) (MagneticVariation m) of
            Inl e \<Rightarrow> Inl (Message_Error msg e)
          | Inr mv \<Rightarrow>
         (case ParsePositioningMode (f ! 11) of
            (pm, Some e) \<Rightarrow>
              Inl (Message_Error msg (UnableToParse ''GPS positioning mode'' (f ! 11)))
          | (pm, None) \<Rightarrow>
              Inr (m\<lparr>DateTimeUTC := t, GPRMC.IsValid := (f ! 1 = ''A''), GPRMC.Latitude := lat,
                      GPRMC.Longitude := lon, Speed := speed, GPRMC.COG := cog,
                      MagneticVariation := mv, GPRMC.PositioningMode := pm\<rparr>)))))))))"

section \<open>Sample messages\<close>

text \<open>A message of three fields, too short for every sentence.\<close>

definition short_message :: Message where
  "short_message = \<lparr>Type = ''GPGLL'', Fields = [''3110.2908'', ''N'', ''x''], Checksum = ''59''\<rparr>"

text \<open>Messages of the right length with one fixed field wrong: the unit of the depth in
  feet, the unit of the speed in km/h, the unit of the altitude.\<close>

definition dbt_wrong_unit :: Message where
  "dbt_wrong_unit =
     \<lparr>Type = ''MXDBT'', Fields = [''108.34'', ''x'', ''33.02'', ''M'', ''18.06'', ''F''],
      Checksum = ''09''\<rparr>"

definition vtg_wrong_unit :: Message where
  "vtg_wrong_unit =
     \<lparr>Type = ''GPVTG'', Fields = [''0.0'', ''T'', [], ''M'', ''0.0'', ''N'', ''0.1'', ''k'', ''A''],
      Checksum = ''0C''\<rparr>"

definition gga_wrong_unit :: Message where
  "gga_wrong_unit =
     \<lparr>Type = ''GPGGA'',
      Fields = [''015540.000'', ''3150.68378'', ''N'', ''11711.93139'', ''E'', ''1'', ''17'', ''0.6'',
                ''0051.6'', ''F'', ''0.0'', ''M'', [], []],
      Checksum = ''58''\<rparr>"

section \<open>Properties\<close>

subsection \<open>The loop over the fixed fields\<close>

lemma validate_fixed_Some:
  "validate_fixed ord f = Some e \<Longrightarrow> \<forall>(i, v) \<in> set ord. i < length f \<Longrightarrow>
   \<exists>(i, v) \<in> set ord. f ! i \<noteq> v \<and> e = InvalidFixedField (i + 1) (f ! i) v"
  by (induction ord) (auto split: if_splits)

lemma validate_fixed_None:
  "validate_fixed ord f = None \<Longrightarrow> \<forall>(i, v) \<in> set ord. f ! i = v"
  by (induction ord) (auto split: if_splits)

lemma validate_fixed_violated:
  assumes "(i, v) \<in> set ord" and "f ! i \<noteq> v" and "\<forall>(i, v) \<in> set ord. i < length f"
  shows "\<exists>(j, w) \<in> set ord. f ! j \<noteq> w \<and>
           validate_fixed ord f = Some (InvalidFixedField (j + 1) (f ! j) w)"
proof (cases "validate_fixed ord f")
  case None
  then show ?thesis using validate_fixed_None [OF None] assms by auto
next
  case (Some e)
  then show ?thesis using validate_fixed_Some [OF Some assms(3)] by auto
qed

lemma fixed_in_range:
  "set ord = set GPDBT_fixed \<Longrightarrow> length f = 6 \<Longrightarrow> \<forall>(i, v) \<in> set ord. i < length f"
  "set ord = set GPVTG_fixed \<Longrightarrow> length f = 9 \<Longrightarrow> \<forall>(i, v) \<in> set ord. i < length f"
  "set ord = set GPGGA_fixed \<Longrightarrow> length f = 14 \<Longrightarrow> \<forall>(i, v) \<in> set ord. i < length f"
  by (auto simp: GPDBT_fixed_def GPVTG_fixed_def GPGGA_fixed_def)

lemma GPDBT_fixed_gate:
  assumes ord: "set ord = set GPDBT_fixed" and len: "length (Fields m) = 6"
    and bad: "(i, v) \<in> set GPDBT_fixed" "Fields m ! i \<noteq> v"
  shows "\<exists>(j, w) \<in> set GPDBT_fixed. Fields m ! j \<noteq> w \<and>
           parse_GPDBT ord (NewGPDBT m) =
             Inl (Message_Error m (InvalidFixedField (j + 1) (Fields m ! j) w))"
proof -
  from validate_fixed_violated [of i v ord "Fields m"] bad ord fixed_in_range(1) [OF ord len]
  obtain j w where jw: "(j, w) \<in> set ord" "Fields m ! j \<noteq> w"
    "validate_fixed ord (Fields m) = Some (InvalidFixedField (j + 1) (Fields m ! j) w)"
    by auto
  then have "parse_GPDBT ord (NewGPDBT m) =
      Inl (Message_Error m (InvalidFixedField (j + 1) (Fields m ! j) w))"
    using len by (simp add: parse_GPDBT_def NewGPDBT_def Let_def)
  then show ?thesis using jw ord by auto
qed

lemma GPVTG_fixed_gate:
  assumes ord: "set ord = set GPVTG_fixed" and len: "length (Fields m) = 9"
    and bad: "(i, v) \<in> set GPVTG_fixed" "Fields m ! i \<noteq> v"
  shows "\<exists>(j, w) \<in> set GPVTG_fixed. Fields m ! j \<noteq> w \<and>
           parse_GPVTG ord (NewGPVTG m) =
             Inl (Message_Error m (InvalidFixedField (j + 1) (Fields m ! j) w))"
proof -
  from validate_fixed_violated [of i v ord "Fields m"] bad ord fixed_in_range(2) [OF ord len]
  obtain j w where jw: "(j, w) \<in> set ord" "Fields m ! j \<noteq> w"
    "validate_fixed ord (Fields m) = Some (InvalidFixedField (j + 1) (Fields m ! j) w)"
    by auto
  then have "parse_GPVTG ord (NewGPVTG m) =
      Inl (Message_Error m (InvalidFixedField (j + 1) (Fields m ! j) w))"
    using len by (simp add: parse_GPVTG_def NewGPVTG_def Let_def)
  then show ?thesis using jw ord by auto
qed

lemma GPGGA_fixed_gate:
  assumes ord: "set ord = set GPGGA_fixed" and len: "length (Fields m) = 14"
    and bad: "(i, v) \<in> set GPGGA_fixed" "Fields m ! i \<noteq> v"
  shows "\<exists>(j, w) \<in> set GPGGA_fixed. Fields m ! j \<noteq> w \<and>
           parse_GPGGA ord (NewGPGGA m) = Inl (InvalidFixedField (j + 1) (Fields m ! j) w)"
proof -
  from validate_fixed_violated [of i v ord "Fields m"] bad ord fixed_in_range(3) [OF ord len]
  obtain j w where jw: "(j, w) \<in> set ord" "Fields m ! j \<noteq> w"
    "validate_fixed ord (Fields m) = Some (InvalidFixedField (j + 1) (Fields m ! j) w)"
    by auto
  then have "parse_GPGGA ord (NewGPGGA m) = Inl (InvalidFixedField (j + 1) (Fields m ! j) w)"
    using len by (simp add: parse_GPGGA_def NewGPGGA_def Let_def)
  then show ?thesis using jw ord by auto
qed

subsection \<open>The claims\<close>

text \<open>
  Claim C4.  The coordinate 0 is written as the empty string, and its cardinal point is
  the empty cardinal point, for a latitude and for a longitude alike.
\<close>

theorem zero_coordinate_is_empty:
  "ToDM 0 = [] \<and> CardinalPoint 0 True = [] \<and> CardinalPoint 0 False = []"
  by (simp add: ToDM_def CardinalPoint_def)

text \<open>
  Claim C5.  A sentence built from a message whose number of fields differs from the number
  its type requires (7 for GPGLL, 14 for GPGGA, 17 for GPGSA, 9 for GPVTG, 6 for DBT, 4 for
  GPTXT, 12 for GPRMC) fails with the error for the number of fields, whatever the fields
  hold and in whatever order the fixed fields would be visited.
\<close>

theorem field_count_gate:
  "(length (Fields m) \<noteq> 7 \<longrightarrow>
      parse_GPGLL (NewGPGLL m) =
        Inl (Message_Error m (Incomplete ''GPGLL'' (length (Fields m)) 7))) \<and>
   (length (Fields m) \<noteq> 14 \<longrightarrow>
      parse_GPGGA ord (NewGPGGA m) = Inl (Incomplete ''GPGGA'' (length (Fields m)) 14)) \<and>
   (length (Fields m) \<noteq> 17 \<longrightarrow>
      parse_GPGSA (NewGPGSA m) =
        Inl (Message_Error m (Incomplete ''GPGSA'' (length (Fields m)) 17))) \<and>
   (length (Fields m) \<noteq> 9 \<longrightarrow>
      parse_GPVTG ord' (NewGPVTG m) =
        Inl (Message_Error m (Incomplete ''GPVTG'' (length (Fields m)) 9))) \<and>
   (length (Fields m) \<noteq> 6 \<longrightarrow>
      parse_GPDBT ord'' (NewGPDBT m) =
        Inl (Message_Error m (Incomplete ''GPDBT'' (length (Fields m)) 6))) \<and>
   (length (Fields m) \<noteq> 4 \<longrightarrow>
      parse_GPTXT ps (NewGPTXT sev0 m) =
        Inl (Message_Error m (Incomplete ''GPTXT'' (length (Fields m)) 4))) \<and>
   (length (Fields m) \<noteq> 12 \<longrightarrow>
      parse_GPRMC (NewGPRMC m) =
        Inl (Message_Error m (Incomplete ''GPRMC'' (length (Fields m)) 12)))"
  by (simp add: parse_GPGLL_def NewGPGLL_def parse_GPGGA_def NewGPGGA_def parse_GPGSA_def
      NewGPGSA_def parse_GPVTG_def NewGPVTG_def parse_GPDBT_def NewGPDBT_def parse_GPTXT_def
      NewGPTXT_def parse_GPRMC_def NewGPRMC_def Let_def)

theorem field_count_gate_witness:
  "length (Fields short_message) \<noteq> 7 \<and>
   parse_GPGLL (NewGPGLL short_message) =
     Inl (Message_Error short_message (Incomplete ''GPGLL'' 3 7)) \<and>
   length (Fields short_message) \<noteq> 14 \<and>
   parse_GPGGA GPGGA_fixed (NewGPGGA short_message) = Inl (Incomplete ''GPGGA'' 3 14) \<and>
   length (Fields short_message) \<noteq> 17 \<and>
   parse_GPGSA (NewGPGSA short_message) =
     Inl (Message_Error short_message (Incomplete ''GPGSA'' 3 17)) \<and>
   length (Fields short_message) \<noteq> 9 \<and>
   parse_GPVTG GPVTG_fixed (NewGPVTG short_message) =
     Inl (Message_Error short_message (Incomplete ''GPVTG'' 3 9)) \<and>
   length (Fields short_message) \<noteq> 6 \<and>
   parse_GPDBT GPDBT_fixed (NewGPDBT short_message) =
     Inl (Message_Error short_message (Incomplete ''GPDBT'' 3 6)) \<and>
   length (Fields short_message) \<noteq> 4 \<and>
   parse_GPTXT (\<lambda>raw. ((), None)) (NewGPTXT () short_message) =
     Inl (Message_Error short_message (Incomplete ''GPTXT'' 3 4)) \<and>
   length (Fields short_message) \<noteq> 12 \<and>
   parse_GPRMC (NewGPRMC short_message) =
     Inl (Message_Error short_message (Incomplete ''GPRMC'' 3 12))"
  using field_count_gate
    [of short_message GPGGA_fixed GPVTG_fixed GPDBT_fixed "\<lambda>raw. ((), None)" "()"]
  by (simp add: short_message_def numeral_3_eq_3)

text \<open>
  Claim C6.  A message with the right number of fields and a fixed field that differs from
  its literal (DBT: \<open>f\<close>, \<open>M\<close>, \<open>F\<close> at the indices 1, 3, 5; GPVTG: \<open>T\<close>, \<open>M\<close>, \<open>N\<close>,
  \<open>K\<close> at 1, 3, 5, 7; GPGGA: \<open>M\<close> at 9 and 11) gives no sentence: the result is the error
  for a fixed field, naming one of the fields that differ, in whatever order the fields are
  visited.
\<close>

theorem fixed_field_gate:
  "(set ord = set GPDBT_fixed \<and> length (Fields m) = 6 \<and>
      (Fields m ! 1 \<noteq> ''f'' \<or> Fields m ! 3 \<noteq> ''M'' \<or> Fields m ! 5 \<noteq> ''F'') \<longrightarrow>
      (\<exists>(j, w) \<in> set GPDBT_fixed. Fields m ! j \<noteq> w \<and>
         parse_GPDBT ord (NewGPDBT m) =
           Inl (Message_Error m (InvalidFixedField (j + 1) (Fields m ! j) w)))) \<and>
   (set ord = set GPVTG_fixed \<and> length (Fields m) = 9 \<and>
      (Fields m ! 1 \<noteq> ''T'' \<or> Fields m ! 3 \<noteq> ''M'' \<or> Fields m ! 5 \<noteq> ''N'' \<or>
       Fields m ! 7 \<noteq> ''K'') \<longrightarrow>
      (\<exists>(j, w) \<in> set GPVTG_fixed. Fields m ! j \<noteq> w \<and>
         parse_GPVTG ord (NewGPVTG m) =
           Inl (Message_Error m (InvalidFixedField (j + 1) (Fields m ! j) w)))) \<and>
   (set ord = set GPGGA_fixed \<and> length (Fields m) = 14 \<and>
      (Fields m ! 9 \<noteq> ''M'' \<or> Fields m ! 11 \<noteq> ''M'') \<longrightarrow>
      (\<exists>(j, w) \<in> set GPGGA_fixed. Fields m ! j \<noteq> w \<and>
         parse_GPGGA ord (NewGPGGA m) = Inl (InvalidFixedField (j + 1) (Fields m ! j) w)))"
proof (intro conjI impI)
  assume a: "set ord = set GPDBT_fixed \<and> length (Fields m) = 6 \<and>
      (Fields m ! 1 \<noteq> ''f'' \<or> Fields m ! 3 \<noteq> ''M'' \<or> Fields m ! 5 \<noteq> ''F'')"
  then obtain i v where "(i, v) \<in> set GPDBT_fixed" "Fields m ! i \<noteq> v"
    by (auto simp: GPDBT_fixed_def)
  with a show "\<exists>(j, w) \<in> set GPDBT_fixed. Fields m ! j \<noteq> w \<and>
         parse_GPDBT ord (NewGPDBT m) =
           Inl (Message_Error m (InvalidFixedField (j + 1) (Fields m ! j) w))"
    using GPDBT_fixed_gate [of ord m i v] by blast
next
  assume a: "set ord = set GPVTG_fixed \<and> length (Fields m) = 9 \<and>
      (Fields m ! 1 \<noteq> ''T'' \<or> Fields m ! 3 \<noteq> ''M'' \<or> Fields m ! 5 \<noteq> ''N'' \<or>
       Fields m ! 7 \<noteq> ''K'')"
  then obtain i v where "(i, v) \<in> set GPVTG_fixed" "Fields m ! i \<noteq> v"
    by (auto simp: GPVTG_fixed_def)
  with a show "\<exists>(j, w) \<in> set GPVTG_fixed. Fields m ! j \<noteq> w \<and>
         parse_GPVTG ord (NewGPVTG m) =
           Inl (Message_Error m (InvalidFixedField (j + 1) (Fields m ! j) w))"
    using GPVTG_fixed_gate [of ord m i v] by blast
next
  assume a: "set ord = set GPGGA_fixed \<and> length (Fields m) = 14 \<and>
      (Fields m ! 9 \<noteq> ''M'' \<or> Fields m ! 11 \<noteq> ''M'')"
  then obtain i v where "(i, v) \<in> set GPGGA_fixed" "Fields m ! i \<noteq> v"
    by (auto simp: GPGGA_fixed_def)
  with a show "\<exists>(j, w) \<in> set GPGGA_fixed. Fields m ! j \<noteq> w \<and>
         parse_GPGGA ord (NewGPGGA m) = Inl (InvalidFixedField (j + 1) (Fields m ! j) w)"
    using GPGGA_fixed_gate [of ord m i v] by blast
qed

theorem fixed_field_gate_witness:
  "length (Fields dbt_wrong_unit) = 6 \<and> Fields dbt_wrong_unit ! 1 \<noteq> ''f'' \<and>
   (\<exists>(j, w) \<in> set GPDBT_fixed. Fields dbt_wrong_unit ! j \<noteq> w \<and>
      parse_GPDBT GPDBT_fixed (NewGPDBT dbt_wrong_unit) =
        Inl (Message_Error dbt_wrong_unit
              (InvalidFixedField (j + 1) (Fields dbt_wrong_unit ! j) w))) \<and>
   length (Fields vtg_wrong_unit) = 9 \<and> Fields vtg_wrong_unit ! 7 \<noteq> ''K'' \<and>
   (\<exists>(j, w) \<in> set GPVTG_fixed. Fields vtg_wrong_unit ! j \<noteq> w \<and>
      parse_GPVTG GPVTG_fixed (NewGPVTG vtg_wrong_unit) =
        Inl (Message_Error vtg_wrong_unit
              (InvalidFixedField (j + 1) (Fields vtg_wrong_unit ! j) w))) \<and>
   length (Fields gga_wrong_unit) = 14 \<and> Fields gga_wrong_unit ! 9 \<noteq> ''M'' \<and>
   (\<exists>(j, w) \<in> set GPGGA_fixed. Fields gga_wrong_unit ! j \<noteq> w \<and>
      parse_GPGGA GPGGA_fixed (NewGPGGA gga_wrong_unit) =
        Inl (InvalidFixedField (j + 1) (Fields gga_wrong_unit ! j) w))"
proof -
  have d: "length (Fields dbt_wrong_unit) = 6" "Fields dbt_wrong_unit ! 1 \<noteq> ''f''"
    by (simp_all add: dbt_wrong_unit_def)
  have v: "length (Fields vtg_wrong_unit) = 9" "Fields vtg_wrong_unit ! 7 \<noteq> ''K''"
    by (simp_all add: vtg_wrong_unit_def)
  have g: "length (Fields gga_wrong_unit) = 14" "Fields gga_wrong_unit ! 9 \<noteq> ''M''"
    by (simp_all add: gga_wrong_unit_def)
  have gate_dbt: "\<exists>(j, w) \<in> set GPDBT_fixed. Fields dbt_wrong_unit ! j \<noteq> w \<and>
      parse_GPDBT GPDBT_fixed (NewGPDBT dbt_wrong_unit) =
        Inl (Message_Error dbt_wrong_unit
              (InvalidFixedField (j + 1) (Fields dbt_wrong_unit ! j) w))"
    by (rule fixed_field_gate [of GPDBT_fixed dbt_wrong_unit, THEN conjunct1, THEN mp])
      (use d in blast)
  have gate_vtg: "\<exists>(j, w) \<in> set GPVTG_fixed. Fields vtg_wrong_unit ! j \<noteq> w \<and>
      parse_GPVTG GPVTG_fixed (NewGPVTG vtg_wrong_unit) =
        Inl (Message_Error vtg_wrong_unit
              (InvalidFixedField (j + 1) (Fields vtg_wrong_unit ! j) w))"
    by (rule fixed_field_gate [of GPVTG_fixed vtg_wrong_unit, THEN conjunct2, THEN conjunct1,
          THEN mp]) (use v in blast)
  have gate_gga: "\<exists>(j, w) \<in> set GPGGA_fixed. Fields gga_wrong_unit ! j \<noteq> w \<and>
      parse_GPGGA GPGGA_fixed (NewGPGGA gga_wrong_unit) =
        Inl (InvalidFixedField (j + 1) (Fields gga_wrong_unit ! j) w)"
    by (rule fixed_field_gate [of GPGGA_fixed gga_wrong_unit, THEN conjunct2, THEN conjunct2,
          THEN mp]) (use g in blast)
  show ?thesis
    by (intro conjI d v g gate_dbt gate_vtg gate_gga)
qed

end
